theory Spec2Isabelle
  imports Main "HOL-Library.AList"
begin

section \<open>Python values, errors and the ambient context\<close>

text \<open>
  The source is \<^verbatim>\<open>src/prefect/core/task.py\<close>. Exceptions are values of type
  \<open>error\<close>, named after the Python classes the source raises; every raising
  operation returns \<open>error + 'a\<close> with \<open>Inl\<close> for the raise. The specification names
  the same failures abstractly: DefinitionError and ContextError are the two
  \<open>ValueError\<close>s, BindingError and the tags error are \<open>TypeError\<close>s,
  ImmutableFieldError is \<open>AttributeError\<close>, and \<open>FAIL\<close> is the signal
  \<^verbatim>\<open>prefect.engine.signals.FAIL\<close>.
\<close>

datatype error =
    ValueError string
  | TypeError string
  | AttributeError string
  | FAIL string

text \<open>
  The kinds of \<^verbatim>\<open>inspect.Parameter\<close>, and a parameter of a signature: its name, its
  kind and whether it has a default (\<^verbatim>\<open>param.default is not _empty\<close>).
\<close>

datatype kind =
    POSITIONAL_ONLY
  | POSITIONAL_OR_KEYWORD
  | VAR_POSITIONAL
  | KEYWORD_ONLY
  | VAR_KEYWORD

record sig_param =
  pname :: string
  pkind :: kind
  has_default :: bool

text \<open>
  Keys of the dictionary \<^verbatim>\<open>callargs\<close>. Binding produces \<^verbatim>\<open>str\<close> keys; the source
  also looks the dictionary up with an \<^verbatim>\<open>inspect.Parameter\<close> object or with
  \<^verbatim>\<open>None\<close>. Python compares a \<^verbatim>\<open>str\<close> with neither of them equal, as the distinct
  constructors do here.
\<close>

datatype key = KStr string | KParam sig_param | KNone

text \<open>
  Python values that reach a task call: literals, references to tasks (by identity),
  the tuple a \<^verbatim>\<open>*args\<close> parameter captures and the \<^verbatim>\<open>str\<close>-keyed dictionary a
  \<^verbatim>\<open>**kwargs\<close> parameter captures.
\<close>

type_synonym task_ref = nat

datatype pyval =
    PNone
  | PInt int
  | PStr string
  | PTask task_ref
  | PTuple "pyval list"
  | PDict "(string \<times> pyval) list"

text \<open>
  An edge of the flow graph, as the specification's data model has it: upstream task,
  downstream task and an optional binding key. The class \<^verbatim>\<open>Flow\<close> is not part of the
  source file; a flow is the list of the edges recorded so far.
\<close>

record edge =
  upstream_task :: task_ref
  downstream_task :: task_ref
  edge_key :: "string option"

record flow =
  edges :: "edge list"

text \<open>
  \<^verbatim>\<open>prefect.context\<close>: each field is \<open>None\<close> when the key is absent, so that
  \<^verbatim>\<open>prefect.context.get(k, d)\<close> is the field's value or \<open>d\<close>; with the default
  \<^verbatim>\<open>None\<close>, as for the key \<^verbatim>\<open>_flow\<close>, it is the field itself.
\<close>

record prefect_context =
  c_flow :: "flow option"
  c_group :: "string option"
  c_tags :: "string list option"
  c_parameters :: "(string \<rightharpoonup> pyval) option"

definition context_get :: "'a option \<Rightarrow> 'a \<Rightarrow> 'a" where
  "context_get field d = (case field of None \<Rightarrow> d | Some v \<Rightarrow> v)"

section \<open>Task construction\<close>

text \<open>
  The \<^verbatim>\<open>tags\<close> argument of \<^verbatim>\<open>Task.__init__\<close> is \<^verbatim>\<open>None\<close>, a \<^verbatim>\<open>str\<close>, or a collection
  of strings. Triggers and cache validators are callables; the built-in ones the
  source names are constructors, every other callable is identified by a number.
  A callable is truthy, so \<^verbatim>\<open>f or g\<close> is \<^verbatim>\<open>f\<close> unless \<^verbatim>\<open>f\<close> is \<^verbatim>\<open>None\<close>.
\<close>

datatype tags_arg = TagsNone | TagsStr string | TagsColl "string list"

datatype trigger = all_successful | CustomTrigger nat

datatype validator = never_use | duration_only | CustomValidator nat

type_synonym timedelta = int  \<comment> \<open>a duration in seconds\<close>

record task_args =
  a_name :: "string option"
  a_slug :: "string option"
  a_description :: "string option"
  a_group :: "string option"
  a_tags :: tags_arg
  a_max_retries :: int
  a_retry_delay :: timedelta
  a_timeout :: "timedelta option"
  a_trigger :: "trigger option"
  a_skip_on_upstream_skip :: bool
  a_cache_for :: "timedelta option"
  a_cache_validator :: "validator option"

text \<open>The defaults of the signature of \<^verbatim>\<open>Task.__init__\<close>.\<close>

definition default_args :: task_args where
  "default_args =
     \<lparr>a_name = None, a_slug = None, a_description = None, a_group = None,
      a_tags = TagsNone, a_max_retries = 0, a_retry_delay = 60, a_timeout = None,
      a_trigger = None, a_skip_on_upstream_skip = True, a_cache_for = None,
      a_cache_validator = None\<rparr>"

text \<open>
  The fields \<^verbatim>\<open>Task.__init__\<close> stores after \<^verbatim>\<open>name\<close> and \<^verbatim>\<open>slug\<close> (lines 92 to 119)
  are grouped in the record \<open>task_policy\<close>, which a task holds in its field
  \<open>policy\<close>: the attribute \<^verbatim>\<open>self.tags\<close> is \<open>tags (policy t)\<close>.
\<close>

record task_policy =
  description :: "string option"
  task_group :: string
  tags :: "string set"
  max_retries :: int
  retry_delay :: timedelta
  timeout :: "timedelta option"
  task_trigger :: trigger
  skip_on_upstream_skip :: bool
  cache_for :: "timedelta option"
  cache_validator :: validator

record task =
  name :: string
  slug :: "string option"
  policy :: task_policy

text \<open>\<^verbatim>\<open>x or y\<close> on strings and on collections: the empty one is falsy.\<close>

definition str_or :: "string option \<Rightarrow> string \<Rightarrow> string" where
  "str_or x y = (case x of None \<Rightarrow> y | Some s \<Rightarrow> if s = [] then y else s)"

definition tags_or :: "tags_arg \<Rightarrow> string list \<Rightarrow> string list" where
  "tags_or t y =
     (case t of TagsNone \<Rightarrow> y
      | TagsStr s \<Rightarrow> (if s = [] then y else map (\<lambda>c. [c]) s)
      | TagsColl xs \<Rightarrow> (if xs = [] then y else xs))"

definition cache_warning :: string where
  "cache_warning =
     ''cache_validator provided without specifying cache expiration (cache_for); this Task will not be cached.''"

text \<open>
  Lines 92 to 119 of \<^verbatim>\<open>Task.__init__\<close>. The result comes with the list of warnings
  given to \<^verbatim>\<open>warnings.warn\<close>; a warning does not stop the construction.
\<close>

definition Task_init_policy :: "prefect_context \<Rightarrow> task_args \<Rightarrow> (error + task_policy) \<times> string list" where
  "Task_init_policy ctx a =
     (case a_tags a of
        TagsStr s \<Rightarrow> (Inl (TypeError ''Tags should be a set of tags, not a string.''), [])
      | _ \<Rightarrow>
        (Inr \<lparr>description = a_description a,
              task_group = str_or (a_group a) (context_get (c_group ctx) ''''),
              tags = set (tags_or (a_tags a) (context_get (c_tags ctx) [])),
              max_retries = a_max_retries a,
              retry_delay = a_retry_delay a,
              timeout = a_timeout a,
              task_trigger = (case a_trigger a of None \<Rightarrow> all_successful | Some t \<Rightarrow> t),
              skip_on_upstream_skip = a_skip_on_upstream_skip a,
              cache_for = a_cache_for a,
              cache_validator =
                (case a_cache_validator a of
                   None \<Rightarrow> (if a_cache_for a = None then never_use else duration_only)
                 | Some v \<Rightarrow> v)\<rparr>,
         if a_cache_for a = None \<and> a_cache_validator a \<noteq> None then [cache_warning] else []))"

text \<open>
  \<^verbatim>\<open>Task.__init__\<close> for an instance of a class named \<open>type_name\<close> whose \<^verbatim>\<open>name\<close> and
  \<^verbatim>\<open>slug\<close> are plain attributes (lines 90 and 91, then the rest).
\<close>

definition Task_init :: "string \<Rightarrow> prefect_context \<Rightarrow> task_args \<Rightarrow> (error + task) \<times> string list" where
  "Task_init type_name ctx a =
     (case Task_init_policy ctx a of
        (Inl e, ws) \<Rightarrow> (Inl e, ws)
      | (Inr p, ws) \<Rightarrow>
          (Inr \<lparr>name = str_or (a_name a) type_name, slug = a_slug a, policy = p\<rparr>, ws))"

section \<open>Parameters\<close>

text \<open>
  An instance of \<^verbatim>\<open>Parameter\<close>. Its \<^verbatim>\<open>name\<close> and \<^verbatim>\<open>slug\<close> are properties over the
  attribute \<^verbatim>\<open>_name\<close>; an attribute that has not been assigned yet is \<open>None\<close>
  (\<^verbatim>\<open>hasattr(self, "_name")\<close> is \<open>p_name p \<noteq> None\<close>).
\<close>

record parameter =
  p_name :: "string option"
  required :: bool
  default_value :: pyval
  p_policy :: "task_policy option"

definition Parameter_name_get :: "parameter \<Rightarrow> error + string" where
  "Parameter_name_get self =
     (case p_name self of
        None \<Rightarrow> Inl (AttributeError ''object has no attribute _name'')
      | Some n \<Rightarrow> Inr n)"

definition Parameter_name_set :: "parameter \<Rightarrow> string \<Rightarrow> error + parameter" where
  "Parameter_name_set self v =
     (if p_name self \<noteq> None then Inl (AttributeError ''Parameter name can not be changed'')
      else Inr (self\<lparr>p_name := Some v\<rparr>))"

definition Parameter_slug_get :: "parameter \<Rightarrow> error + string" where
  "Parameter_slug_get self = Parameter_name_get self"

text \<open>The value assigned to \<^verbatim>\<open>slug\<close> is a \<^verbatim>\<open>str\<close> or \<^verbatim>\<open>None\<close>.\<close>

definition Parameter_slug_set :: "parameter \<Rightarrow> string option \<Rightarrow> error + parameter" where
  "Parameter_slug_set self v =
     (case Parameter_name_get self of
        Inl e \<Rightarrow> Inl e
      | Inr n \<Rightarrow>
          if v \<noteq> Some n then Inl (AttributeError ''Parameter slug must be the same as its name.'')
          else Inr self)"

text \<open>
  \<^verbatim>\<open>Parameter.__init__\<close>, with the body of \<^verbatim>\<open>Task.__init__\<close> it calls: the assignments
  to \<^verbatim>\<open>self.name\<close> and \<^verbatim>\<open>self.slug\<close> go through the two setters.
\<close>

definition Parameter_init ::
  "string \<Rightarrow> prefect_context \<Rightarrow> string \<Rightarrow> pyval \<Rightarrow> bool \<Rightarrow> (error + parameter) \<times> string list" where
  "Parameter_init type_name ctx nm dflt req =
     (let self0 = \<lparr>p_name = None,
                   required = (if dflt \<noteq> PNone then False else req),
                   default_value = dflt,
                   p_policy = None\<rparr>;
          a = default_args\<lparr>a_name := Some nm, a_slug := Some nm\<rparr>
      in case Parameter_name_set self0 (str_or (a_name a) type_name) of
           Inl e \<Rightarrow> (Inl e, [])
         | Inr self1 \<Rightarrow>
            (case Parameter_slug_set self1 (a_slug a) of
               Inl e \<Rightarrow> (Inl e, [])
             | Inr self2 \<Rightarrow>
                (case Task_init_policy ctx a of
                   (Inl e, ws) \<Rightarrow> (Inl e, ws)
                 | (Inr pol, ws) \<Rightarrow> (Inr (self2\<lparr>p_policy := Some pol\<rparr>), ws))))"

definition required_message :: "string \<Rightarrow> string" where
  "required_message n =
     ''Parameter '' @ [CHR 0x22] @ n @ [CHR 0x22] @ '' was required but not provided.''"

definition Parameter_run :: "prefect_context \<Rightarrow> parameter \<Rightarrow> error + pyval" where
  "Parameter_run ctx self =
     (let params = context_get (c_parameters ctx) Map.empty
      in case Parameter_name_get self of
           Inl e \<Rightarrow> Inl e
         | Inr n \<Rightarrow>
             if required self \<and> params n = None then Inl (FAIL (required_message n))
             else Inr (case params n of None \<Rightarrow> default_value self | Some v \<Rightarrow> v))"

text \<open>
  Assignments to the two properties after construction. An assignment that raises leaves
  the object as it was, so a sequence of attempted assignments, each of which may be
  caught by the caller, is run to its end.
\<close>

datatype attr_assignment = SetName string | SetSlug "string option"

definition Parameter_setattr :: "parameter \<Rightarrow> attr_assignment \<Rightarrow> error + parameter" where
  "Parameter_setattr self a =
     (case a of SetName v \<Rightarrow> Parameter_name_set self v | SetSlug v \<Rightarrow> Parameter_slug_set self v)"

fun Parameter_setattrs :: "parameter \<Rightarrow> attr_assignment list \<Rightarrow> parameter" where
  "Parameter_setattrs self [] = self"
| "Parameter_setattrs self (a # as) =
     (case Parameter_setattr self a of
        Inl e \<Rightarrow> Parameter_setattrs self as
      | Inr self' \<Rightarrow> Parameter_setattrs self' as)"

section \<open>The signature check at class creation\<close>

text \<open>
  A class: its name, its parents and the dictionary of its methods, each method given
  by the parameters of its signature. \<^verbatim>\<open>type.__new__\<close> builds the class from the three.
\<close>

datatype py_class =
  PyClass (cls_name: string) (cls_parents: "py_class list")
    (cls_methods: "(string \<times> sig_param list) list")

text \<open>
  \<^verbatim>\<open>inspect.getfullargspec(f).varargs\<close>: the name of the \<^verbatim>\<open>*args\<close> parameter, or
  \<^verbatim>\<open>None\<close>. As a condition, a \<^verbatim>\<open>str\<close> is truthy when it is not empty.
\<close>

definition getfullargspec_varargs :: "sig_param list \<Rightarrow> string option" where
  "getfullargspec_varargs f = map_option pname (find (\<lambda>p. pkind p = VAR_POSITIONAL) f)"

definition truthy_str :: "string option \<Rightarrow> bool" where
  "truthy_str v = (case v of None \<Rightarrow> False | Some s \<Rightarrow> s \<noteq> [])"

definition varargs_message :: string where
  "varargs_message =
     ''Tasks with variable positional arguments (*args) are not '' @
     ''supported, because all Prefect arguments are stored as '' @
     ''keywords. As a workaround, consider modifying the run() '' @
     ''method to accept **kwargs and feeding the values '' @
     ''to *args.''"

definition SignatureValidator_new ::
  "string \<Rightarrow> py_class list \<Rightarrow> (string \<times> sig_param list) list \<Rightarrow> error + py_class" where
  "SignatureValidator_new nm parents methods =
     (let run = (case map_of methods ''run'' of None \<Rightarrow> [] | Some f \<Rightarrow> f);
          varargs = getfullargspec_varargs run
      in if truthy_str varargs then Inl (ValueError varargs_message)
         else Inr (PyClass nm parents methods))"

section \<open>Binding a call to the signature of the entrypoint\<close>

text \<open>
  \<^verbatim>\<open>inspect.Signature.bind\<close> of the standard library, in its two loops. The first
  pairs the positional arguments with the parameters in order and returns the
  arguments bound so far with the parameters left (\<^verbatim>\<open>parameters_ex\<close> followed by the
  rest of the iterator); the second takes the remaining parameters from the keyword
  arguments. \<open>repr_str\<close> is \<^verbatim>\<open>repr\<close> on a \<^verbatim>\<open>str\<close> that needs no escaping, as every
  identifier is.
\<close>

definition repr_str :: "string \<Rightarrow> string" where
  "repr_str s = [CHR 0x27] @ s @ [CHR 0x27]"

fun bind_positional ::
  "sig_param list \<Rightarrow> pyval list \<Rightarrow> (string \<times> pyval) list \<Rightarrow> (string \<times> pyval) list \<Rightarrow>
   error + ((string \<times> pyval) list \<times> sig_param list)" where
  "bind_positional [] [] kwargs arguments = Inr (arguments, [])"
| "bind_positional (param # parameters) [] kwargs arguments =
     (if pkind param = VAR_POSITIONAL then Inr (arguments, parameters)
      else if map_of kwargs (pname param) \<noteq> None then
        (if pkind param = POSITIONAL_ONLY then
           Inl (TypeError (repr_str (pname param) @
                  '' parameter is positional only, but was passed as a keyword''))
         else Inr (arguments, param # parameters))
      else if pkind param = VAR_KEYWORD \<or> has_default param then
        Inr (arguments, param # parameters)
      else Inl (TypeError (''missing a required argument: '' @ repr_str (pname param))))"
| "bind_positional [] (arg_val # arg_vals) kwargs arguments =
     Inl (TypeError ''too many positional arguments'')"
| "bind_positional (param # parameters) (arg_val # arg_vals) kwargs arguments =
     (if pkind param = VAR_KEYWORD \<or> pkind param = KEYWORD_ONLY then
        Inl (TypeError ''too many positional arguments'')
      else if pkind param = VAR_POSITIONAL then
        Inr (AList.update (pname param) (PTuple (arg_val # arg_vals)) arguments, parameters)
      else if map_of kwargs (pname param) \<noteq> None \<and> pkind param \<noteq> POSITIONAL_ONLY then
        Inl (TypeError (''multiple values for argument '' @ repr_str (pname param)))
      else bind_positional parameters arg_vals kwargs
             (AList.update (pname param) arg_val arguments))"

fun bind_keywords ::
  "sig_param list \<Rightarrow> (string \<times> pyval) list \<Rightarrow> (string \<times> pyval) list \<Rightarrow> sig_param option \<Rightarrow>
   error + ((string \<times> pyval) list \<times> (string \<times> pyval) list \<times> sig_param option)" where
  "bind_keywords [] kwargs arguments kwargs_param = Inr (arguments, kwargs, kwargs_param)"
| "bind_keywords (param # parameters) kwargs arguments kwargs_param =
     (if pkind param = VAR_KEYWORD then
        bind_keywords parameters kwargs arguments (Some param)
      else if pkind param = VAR_POSITIONAL then
        bind_keywords parameters kwargs arguments kwargs_param
      else
        (case map_of kwargs (pname param) of
           None \<Rightarrow>
             if \<not> has_default param then
               Inl (TypeError (''missing a required argument: '' @ repr_str (pname param)))
             else bind_keywords parameters kwargs arguments kwargs_param
         | Some arg_val \<Rightarrow>
             if pkind param = POSITIONAL_ONLY then
               Inl (TypeError (repr_str (pname param) @
                      '' parameter is positional only, but was passed as a keyword''))
             else bind_keywords parameters (AList.delete (pname param) kwargs)
                    (AList.update (pname param) arg_val arguments) kwargs_param))"

definition Signature_bind ::
  "sig_param list \<Rightarrow> pyval list \<Rightarrow> (string \<times> pyval) list \<Rightarrow> error + (string \<times> pyval) list" where
  "Signature_bind signature args kwargs =
     (case bind_positional signature args kwargs [] of
        Inl e \<Rightarrow> Inl e
      | Inr (arguments, rest) \<Rightarrow>
         (case bind_keywords rest kwargs arguments None of
            Inl e \<Rightarrow> Inl e
          | Inr (arguments', kwargs', kwargs_param) \<Rightarrow>
              if kwargs' \<noteq> [] then
                (case kwargs_param of
                   Some p \<Rightarrow> Inr (AList.update (pname p) (PDict kwargs') arguments')
                 | None \<Rightarrow>
                     Inl (TypeError (''got an unexpected keyword argument '' @
                            repr_str (fst (hd kwargs')))))
              else Inr arguments'))"

section \<open>Calling a task\<close>

text \<open>
  The dictionary \<^verbatim>\<open>callargs\<close> and the two operations line 170 applies to it.
  \<^verbatim>\<open>d.pop(k, dflt)\<close> removes and returns the entry of \<open>k\<close>, or returns \<open>dflt\<close>;
  \<^verbatim>\<open>d.update(other)\<close> stores every entry of the dictionary \<open>other\<close>. Python raises
  when \<open>other\<close> is neither a mapping nor an iterable of pairs; the model raises for
  every value that is not a dictionary.
\<close>

type_synonym callargs = "(key \<times> pyval) list"

definition dict_pop :: "('k \<times> 'v) list \<Rightarrow> 'k \<Rightarrow> 'v \<Rightarrow> 'v \<times> ('k \<times> 'v) list" where
  "dict_pop d k dflt = (case map_of d k of None \<Rightarrow> (dflt, d) | Some v \<Rightarrow> (v, AList.delete k d))"

definition dict_update :: "callargs \<Rightarrow> pyval \<Rightarrow> error + callargs" where
  "dict_update d other =
     (case other of
        PDict kvs \<Rightarrow> Inr (fold (\<lambda>(k, v). AList.update (KStr k) v) kvs d)
      | _ \<Rightarrow> Inl (TypeError ''object is not iterable''))"

text \<open>
  Lines 162 to 170 of \<^verbatim>\<open>Task.__call__\<close>: the dictionary handed on as
  \<^verbatim>\<open>keyword_tasks\<close>. \<open>signature\<close> is \<^verbatim>\<open>inspect.signature(self.run)\<close>. The key given
  to \<^verbatim>\<open>pop\<close> is \<^verbatim>\<open>var_kw_arg\<close> itself: the parameter object, or \<^verbatim>\<open>None\<close>.
\<close>

definition Task_call_callargs ::
  "sig_param list \<Rightarrow> pyval list \<Rightarrow> (string \<times> pyval) list \<Rightarrow> error + callargs" where
  "Task_call_callargs signature args kwargs =
     (case Signature_bind signature args kwargs of
        Inl e \<Rightarrow> Inl e
      | Inr arguments \<Rightarrow>
          (let callargs = map (\<lambda>(k, v). (KStr k, v)) arguments;
               var_kw_arg = (case find (\<lambda>p. pkind p = VAR_KEYWORD) signature of
                               None \<Rightarrow> KNone | Some p \<Rightarrow> KParam p);
               (popped, callargs') = dict_pop callargs var_kw_arg (PDict [])
           in dict_update callargs' popped))"

text \<open>
  \<^verbatim>\<open>Flow.set_dependencies\<close> is not in the source file, so the functions that call it
  take it as the parameter \<open>fsd\<close>: from the flow, the task, the upstream tasks, the
  downstream tasks, the keyword tasks and the flag \<^verbatim>\<open>validate\<close> to the error it
  raises, if any, and the flow it leaves. A flow object is truthy.
\<close>

type_synonym flow_set_dependencies =
  "flow \<Rightarrow> task_ref \<Rightarrow> pyval list option \<Rightarrow> pyval list option \<Rightarrow> callargs option \<Rightarrow> bool \<Rightarrow>
   error option \<times> flow"

text \<open>
  \<^verbatim>\<open>Task.set_dependencies\<close> (lines 182 to 220). It returns the error raised, if any,
  and the flow it worked on, as that flow is afterwards.
\<close>

definition Task_set_dependencies ::
  "flow_set_dependencies \<Rightarrow> prefect_context \<Rightarrow> task_ref \<Rightarrow> flow option \<Rightarrow> pyval list option \<Rightarrow>
   pyval list option \<Rightarrow> callargs option \<Rightarrow> bool \<Rightarrow> error option \<times> flow option" where
  "Task_set_dependencies fsd ctx self fl upstream_tasks downstream_tasks keyword_tasks validate =
     (case (case fl of None \<Rightarrow> c_flow ctx | Some f \<Rightarrow> Some f) of
        None \<Rightarrow>
          (Some (ValueError ''No Flow was passed, and could not infer an active Flow context.''),
           None)
      | Some f \<Rightarrow>
          (case fsd f self upstream_tasks downstream_tasks keyword_tasks validate of
             (e, f') \<Rightarrow> (e, Some f')))"

text \<open>
  \<^verbatim>\<open>Task.__call__\<close> (lines 158 to 180) on the task \<open>self\<close> whose \<^verbatim>\<open>run\<close> has the
  signature \<open>signature\<close>. The flow is the object the context holds, so the flow the
  call leaves is written back into the context that is returned.
\<close>

definition Task_call ::
  "flow_set_dependencies \<Rightarrow> sig_param list \<Rightarrow> prefect_context \<Rightarrow> task_ref \<Rightarrow> pyval list \<Rightarrow>
   pyval list option \<Rightarrow> (string \<times> pyval) list \<Rightarrow> (error + task_ref) \<times> prefect_context" where
  "Task_call fsd signature ctx self args upstream_tasks kwargs =
     (case Task_call_callargs signature args kwargs of
        Inl e \<Rightarrow> (Inl e, ctx)
      | Inr callargs \<Rightarrow>
          (case c_flow ctx of
             None \<Rightarrow> (Inl (ValueError ''Could not infer an active Flow context.''), ctx)
           | Some fl \<Rightarrow>
               (case Task_set_dependencies fsd ctx self (Some fl) upstream_tasks None
                       (Some callargs) True of
                  (Some e, fl') \<Rightarrow> (Inl e, ctx\<lparr>c_flow := fl'\<rparr>)
                | (None, fl') \<Rightarrow> (Inr self, ctx\<lparr>c_flow := fl'\<rparr>))))"








section \<open>Properties of task construction\<close>

text \<open>
  C5, as stated: a task constructed with a non-empty collection of tags while ambient
  tags are set stores the union of both. The source stores
  \<^verbatim>\<open>set(tags or prefect.context.get("_tags", []))\<close>, so with the tags \<open>a\<close> supplied under
  the ambient tags \<open>b\<close> the stored set is not the union.
\<close>

theorem Task_init_tags_union_counterexample:
  "map_sum id (tags \<circ> policy)
     (fst (Task_init ''Task''
        \<lparr>c_flow = None, c_group = None, c_tags = Some [''b''], c_parameters = None\<rparr>
        (default_args\<lparr>a_tags := TagsColl [''a'']\<rparr>)))
   \<noteq> Inr (set [''b''] \<union> set [''a''])"
  by (simp add: Task_init_def Task_init_policy_def default_args_def tags_or_def)

text \<open>
  C5, amended: a task constructed with a non-empty collection of tags stores exactly the
  supplied tags, whatever the ambient tags are; the ambient tags are stored only when no
  tags, or an empty collection, are supplied.
\<close>

theorem Task_init_tags_explicit:
  "(a_tags a = TagsColl xs \<and> xs \<noteq> [] \<longrightarrow>
      (\<exists>t ws. Task_init type_name ctx a = (Inr t, ws) \<and> tags (policy t) = set xs)) \<and>
   (a_tags a = TagsNone \<or> a_tags a = TagsColl [] \<longrightarrow>
      (\<exists>t ws. Task_init type_name ctx a = (Inr t, ws) \<and>
         tags (policy t) = set (context_get (c_tags ctx) [])))"
  by (auto simp add: Task_init_def Task_init_policy_def tags_or_def)

theorem Task_init_tags_explicit_witness:
  "\<exists>t ws. Task_init ''Task''
        \<lparr>c_flow = None, c_group = None, c_tags = Some [''b''], c_parameters = None\<rparr>
        (default_args\<lparr>a_tags := TagsColl [''a'']\<rparr>) = (Inr t, ws) \<and> tags (policy t) = {''a''}"
  using Task_init_tags_explicit [of "default_args\<lparr>a_tags := TagsColl [''a'']\<rparr>" "[''a'']" "''Task''"
      "\<lparr>c_flow = None, c_group = None, c_tags = Some [''b''], c_parameters = None\<rparr>"]
  by (simp add: default_args_def)

text \<open>
  C6: constructing a task with \<^verbatim>\<open>tags\<close> given as a bare string raises the
  \<^verbatim>\<open>TypeError\<close> and yields no task; constructing it with a set of strings such as
  \<open>{a, b}\<close> succeeds and stores exactly that set.
\<close>

theorem Task_init_tags_string:
  "(a_tags a = TagsStr s \<longrightarrow>
      Task_init type_name ctx a =
        (Inl (TypeError ''Tags should be a set of tags, not a string.''), [])) \<and>
   (a_tags a = TagsColl xs \<and> xs \<noteq> [] \<longrightarrow>
      (\<exists>t. fst (Task_init type_name ctx a) = Inr t \<and> tags (policy t) = set xs))"
  by (auto simp add: Task_init_def Task_init_policy_def tags_or_def)

theorem Task_init_tags_string_witness:
  "Task_init ''Task'' \<lparr>c_flow = None, c_group = None, c_tags = Some [''c''], c_parameters = None\<rparr>
     (default_args\<lparr>a_tags := TagsStr ''ab''\<rparr>) =
     (Inl (TypeError ''Tags should be a set of tags, not a string.''), []) \<and>
   (\<exists>t. fst (Task_init ''Task'' \<lparr>c_flow = None, c_group = None, c_tags = Some [''c''], c_parameters = None\<rparr>
     (default_args\<lparr>a_tags := TagsColl [''a'', ''b'']\<rparr>)) = Inr t \<and> tags (policy t) = {''a'', ''b''})"
  using Task_init_tags_string [of "default_args\<lparr>a_tags := TagsStr ''ab''\<rparr>" "''ab''" "''Task''"
      "\<lparr>c_flow = None, c_group = None, c_tags = Some [''c''], c_parameters = None\<rparr>" "[]"]
    Task_init_tags_string [of "default_args\<lparr>a_tags := TagsColl [''a'', ''b'']\<rparr>" "[]" "''Task''"
      "\<lparr>c_flow = None, c_group = None, c_tags = Some [''c''], c_parameters = None\<rparr>" "[''a'', ''b'']"]
  by (simp add: default_args_def)

text \<open>
  C9: a task constructed (with tags that are not a bare string) with a cache validator
  and no \<^verbatim>\<open>cache_for\<close> is constructed all the same, with the one warning, with
  \<^verbatim>\<open>cache_for\<close> stored as \<^verbatim>\<open>None\<close> and the supplied validator stored as it is; without a
  cache validator the stored one is \<^verbatim>\<open>never_use\<close> when \<^verbatim>\<open>cache_for\<close> is \<^verbatim>\<open>None\<close> and
  \<^verbatim>\<open>duration_only\<close> otherwise.
\<close>

theorem Task_init_cache_validator:
  assumes "\<forall>s. a_tags a \<noteq> TagsStr s"
  shows "(a_cache_validator a = Some v \<and> a_cache_for a = None \<longrightarrow>
           (\<exists>t. Task_init type_name ctx a = (Inr t, [cache_warning]) \<and>
                cache_for (policy t) = None \<and> cache_validator (policy t) = v)) \<and>
         (a_cache_validator a = None \<longrightarrow>
           (\<exists>t ws. Task_init type_name ctx a = (Inr t, ws) \<and>
                cache_validator (policy t) =
                  (if a_cache_for a = None then never_use else duration_only)))"
  using assms by (cases "a_tags a") (auto simp add: Task_init_def Task_init_policy_def)

theorem Task_init_cache_validator_witness:
  "(\<exists>t. Task_init ''Task'' \<lparr>c_flow = None, c_group = None, c_tags = None, c_parameters = None\<rparr>
       (default_args\<lparr>a_cache_validator := Some (CustomValidator 7)\<rparr>) = (Inr t, [cache_warning]) \<and>
       cache_for (policy t) = None \<and> cache_validator (policy t) = CustomValidator 7) \<and>
   (\<exists>t ws. Task_init ''Task'' \<lparr>c_flow = None, c_group = None, c_tags = None, c_parameters = None\<rparr>
       (default_args\<lparr>a_cache_for := Some 600\<rparr>) = (Inr t, ws) \<and>
       cache_validator (policy t) = duration_only)"
  using Task_init_cache_validator [of "default_args\<lparr>a_cache_validator := Some (CustomValidator 7)\<rparr>"
      "CustomValidator 7" "''Task''" "\<lparr>c_flow = None, c_group = None, c_tags = None, c_parameters = None\<rparr>"]
    Task_init_cache_validator [of "default_args\<lparr>a_cache_for := Some 600\<rparr>"
      "CustomValidator 7" "''Task''" "\<lparr>c_flow = None, c_group = None, c_tags = None, c_parameters = None\<rparr>"]
  by (simp add: default_args_def)

section \<open>Properties of parameters\<close>

lemma Parameter_init_name:
  assumes "Parameter_init type_name ctx nm dflt req = (Inr self, ws)"
  shows "p_name self = Some nm"
  using assms
  by (auto simp add: Parameter_init_def Parameter_name_set_def Parameter_slug_set_def
      Parameter_name_get_def Let_def default_args_def str_or_def
      split: sum.splits if_splits prod.splits)

lemma Parameter_init_fields:
  assumes "Parameter_init type_name ctx nm dflt req = (Inr self, ws)"
  shows "required self = (dflt = PNone \<and> req) \<and> default_value self = dflt"
  using assms
  by (auto simp add: Parameter_init_def Parameter_name_set_def Parameter_slug_set_def
      Parameter_name_get_def Let_def default_args_def str_or_def
      split: sum.splits if_splits prod.splits)

lemma Parameter_init_succeeds:
  assumes "nm \<noteq> []"
  shows "\<exists>self ws. Parameter_init type_name ctx nm dflt req = (Inr self, ws)"
  using assms
  by (simp add: Parameter_init_def Parameter_name_set_def Parameter_slug_set_def
      Parameter_name_get_def Let_def default_args_def str_or_def Task_init_policy_def)

lemma Parameter_setattr_fixed:
  assumes "p_name self = Some nm" and "Parameter_setattr self a = Inr self'"
  shows "self' = self"
  using assms
  by (cases a) (auto simp add: Parameter_setattr_def Parameter_name_set_def Parameter_slug_set_def
      Parameter_name_get_def split: if_splits)

lemma Parameter_setattrs_fixed:
  assumes "p_name self = Some nm"
  shows "Parameter_setattrs self as = self"
  using assms
proof (induction as)
  case Nil
  then show ?case by simp
next
  case (Cons a as)
  then show ?case
    by (cases "Parameter_setattr self a") (auto dest: Parameter_setattr_fixed)
qed

text \<open>
  C7: for a constructed parameter named \<open>nm\<close>, \<^verbatim>\<open>run\<close> raises \<^verbatim>\<open>FAIL\<close> with exactly the
  message \<^verbatim>\<open>Parameter "nm" was required but not provided.\<close> when the parameter is required
  and \<open>nm\<close> is absent from the ambient parameter mapping, returns the mapped value when
  \<open>nm\<close> is present, and returns the default when \<open>nm\<close> is absent and the parameter is not
  required.
\<close>

theorem Parameter_run_result:
  assumes "Parameter_init type_name ctx0 nm dflt req = (Inr self, ws)"
    and "params = context_get (c_parameters ctx) Map.empty"
  shows "(required self \<and> params nm = None \<longrightarrow>
            Parameter_run ctx self =
              Inl (FAIL (''Parameter '' @ [CHR 0x22] @ nm @ [CHR 0x22] @
                         '' was required but not provided.''))) \<and>
         (params nm = Some v \<longrightarrow> Parameter_run ctx self = Inr v) \<and>
         (\<not> required self \<and> params nm = None \<longrightarrow>
            Parameter_run ctx self = Inr (default_value self))"
  using Parameter_init_name [OF assms(1)] assms(2)
  by (simp add: Parameter_run_def Parameter_name_get_def required_message_def Let_def)

text \<open>
  C8: after construction the slug of a parameter equals its name; every assignment to the
  name raises the \<^verbatim>\<open>AttributeError\<close>, as does every assignment to the slug of a value
  other than the name; and whatever assignments are attempted afterwards, the object,
  and so the binding of name and slug, stays as it was.
\<close>

theorem Parameter_name_slug_bound:
  assumes "Parameter_init type_name ctx nm dflt req = (Inr self, ws)"
  shows "Parameter_name_get self = Inr nm \<and> Parameter_slug_get self = Inr nm \<and>
         (\<forall>v. Parameter_name_set self v = Inl (AttributeError ''Parameter name can not be changed'')) \<and>
         (\<forall>v. v \<noteq> Some nm \<longrightarrow>
            Parameter_slug_set self v =
              Inl (AttributeError ''Parameter slug must be the same as its name.'')) \<and>
         Parameter_slug_set self (Some nm) = Inr self \<and>
         (\<forall>as. Parameter_setattrs self as = self)"
  using Parameter_init_name [OF assms] Parameter_setattrs_fixed [of self nm]
  by (simp add: Parameter_name_get_def Parameter_slug_get_def Parameter_name_set_def
      Parameter_slug_set_def)

text \<open>
  C10: a parameter constructed with a default other than \<^verbatim>\<open>None\<close> stores
  \<^verbatim>\<open>required = False\<close> whatever was passed for \<^verbatim>\<open>required\<close>; with the default \<^verbatim>\<open>None\<close>
  the stored flag is the one passed. Construction succeeds for every non-empty name.
\<close>

theorem Parameter_init_required:
  "(nm \<noteq> [] \<longrightarrow> (\<exists>self ws. Parameter_init type_name ctx nm dflt req = (Inr self, ws))) \<and>
   (\<forall>self ws. Parameter_init type_name ctx nm dflt req = (Inr self, ws) \<longrightarrow>
      (dflt \<noteq> PNone \<longrightarrow> \<not> required self) \<and> (dflt = PNone \<longrightarrow> required self = req))"
  using Parameter_init_succeeds [of nm type_name ctx dflt req]
    Parameter_init_fields [of type_name ctx nm dflt req]
  by auto


theorem Parameter_run_result_witness:
  "\<exists>self ws.
     Parameter_init ''Parameter''
       \<lparr>c_flow = None, c_group = None, c_tags = None, c_parameters = None\<rparr> ''x'' PNone True
       = (Inr self, ws) \<and>
     Parameter_run \<lparr>c_flow = None, c_group = None, c_tags = None, c_parameters = Some Map.empty\<rparr> self
       = Inl (FAIL (''Parameter '' @ [CHR 0x22] @ ''x'' @ [CHR 0x22] @
                    '' was required but not provided.'')) \<and>
     Parameter_run \<lparr>c_flow = None, c_group = None, c_tags = None,
                    c_parameters = Some [''x'' \<mapsto> PInt 5]\<rparr> self
       = Inr (PInt 5)"
proof -
  obtain self ws where i:
    "Parameter_init ''Parameter''
       \<lparr>c_flow = None, c_group = None, c_tags = None, c_parameters = None\<rparr> ''x'' PNone True
     = (Inr self, ws)"
    using Parameter_init_succeeds [of "''x''"] by blast
  have r: "required self"
    using Parameter_init_fields [OF i] by simp
  have a: "Parameter_run \<lparr>c_flow = None, c_group = None, c_tags = None, c_parameters = Some Map.empty\<rparr> self
       = Inl (FAIL (''Parameter '' @ [CHR 0x22] @ ''x'' @ [CHR 0x22] @
                    '' was required but not provided.''))"
    using Parameter_run_result [OF i, of Map.empty
        "\<lparr>c_flow = None, c_group = None, c_tags = None, c_parameters = Some Map.empty\<rparr>"] r
    by (simp add: context_get_def)
  have b: "Parameter_run \<lparr>c_flow = None, c_group = None, c_tags = None,
                    c_parameters = Some [''x'' \<mapsto> PInt 5]\<rparr> self = Inr (PInt 5)"
    using Parameter_run_result [OF i, of "[''x'' \<mapsto> PInt 5]"
        "\<lparr>c_flow = None, c_group = None, c_tags = None, c_parameters = Some [''x'' \<mapsto> PInt 5]\<rparr>"
        "PInt 5"]
    by (simp add: context_get_def)
  show ?thesis using i a b by simp
qed

theorem Parameter_name_slug_bound_witness:
  "\<exists>self ws.
     Parameter_init ''Parameter''
       \<lparr>c_flow = None, c_group = None, c_tags = None, c_parameters = None\<rparr> ''x'' PNone True
       = (Inr self, ws) \<and>
     Parameter_slug_get self = Inr ''x'' \<and>
     Parameter_name_set self ''y'' = Inl (AttributeError ''Parameter name can not be changed'') \<and>
     Parameter_slug_set self (Some ''y'') =
       Inl (AttributeError ''Parameter slug must be the same as its name.'') \<and>
     Parameter_setattrs self [SetSlug (Some ''x''), SetName ''y'', SetSlug None] = self"
proof -
  obtain self ws where i:
    "Parameter_init ''Parameter''
       \<lparr>c_flow = None, c_group = None, c_tags = None, c_parameters = None\<rparr> ''x'' PNone True
     = (Inr self, ws)"
    using Parameter_init_succeeds [of "''x''"] by blast
  show ?thesis using i Parameter_name_slug_bound [OF i]
    by (simp del: Parameter_setattrs.simps)
qed

theorem Parameter_init_required_witness:
  "\<exists>self ws.
     Parameter_init ''Parameter''
       \<lparr>c_flow = None, c_group = None, c_tags = None, c_parameters = None\<rparr> ''x'' (PInt 3) True
       = (Inr self, ws) \<and> \<not> required self"
  using Parameter_init_required [of "''x''" "''Parameter''"
      "\<lparr>c_flow = None, c_group = None, c_tags = None, c_parameters = None\<rparr>" "PInt 3" True]
  by auto

section \<open>Properties of the signature check\<close>

lemma getfullargspec_varargs_truthy:
  assumes "\<forall>p\<in>set f. pname p \<noteq> []"
  shows "truthy_str (getfullargspec_varargs f) \<longleftrightarrow> (\<exists>p\<in>set f. pkind p = VAR_POSITIONAL)"
proof (cases "find (\<lambda>p. pkind p = VAR_POSITIONAL) f")
  case None
  then have "\<forall>p\<in>set f. pkind p \<noteq> VAR_POSITIONAL"
    by (auto simp add: find_None_iff)
  with None show ?thesis
    by (simp add: getfullargspec_varargs_def truthy_str_def)
next
  case (Some q)
  then have "q \<in> set f" and "pkind q = VAR_POSITIONAL"
    by (auto simp add: find_Some_iff)
  with Some assms show ?thesis
    by (auto simp add: getfullargspec_varargs_def truthy_str_def)
qed

text \<open>
  C4: creating a class whose \<^verbatim>\<open>run\<close> declares a variable positional parameter fails with
  the \<^verbatim>\<open>ValueError\<close>; creating one whose \<^verbatim>\<open>run\<close> has only named and variable-keyword
  parameters succeeds; and the check is made for each class on its own, so a subclass
  whose \<^verbatim>\<open>run\<close> declares \<^verbatim>\<open>*args\<close> fails although its parent was created. Parameter
  names are identifiers, hence not empty.
\<close>

theorem SignatureValidator_new_varargs:
  assumes "map_of methods ''run'' = Some run" and "\<forall>p\<in>set run. pname p \<noteq> []"
  shows "((\<exists>p\<in>set run. pkind p = VAR_POSITIONAL) \<longrightarrow>
            SignatureValidator_new nm parents methods = Inl (ValueError varargs_message)) \<and>
         ((\<forall>p\<in>set run. pkind p \<noteq> VAR_POSITIONAL) \<longrightarrow>
            SignatureValidator_new nm parents methods = Inr (PyClass nm parents methods)) \<and>
         (\<forall>pn pps pms parent.
            SignatureValidator_new pn pps pms = Inr parent \<and>
            (\<exists>p\<in>set run. pkind p = VAR_POSITIONAL) \<longrightarrow>
            SignatureValidator_new nm [parent] methods = Inl (ValueError varargs_message))"
  using assms getfullargspec_varargs_truthy [of run]
  by (auto simp add: SignatureValidator_new_def Let_def)

theorem SignatureValidator_new_varargs_witness:
  "SignatureValidator_new ''AddTask'' []
     [(''run'', [\<lparr>pname = ''self'', pkind = POSITIONAL_OR_KEYWORD, has_default = False\<rparr>,
                \<lparr>pname = ''x'', pkind = POSITIONAL_OR_KEYWORD, has_default = False\<rparr>,
                \<lparr>pname = ''kwargs'', pkind = VAR_KEYWORD, has_default = False\<rparr>])]
   = Inr (PyClass ''AddTask'' []
     [(''run'', [\<lparr>pname = ''self'', pkind = POSITIONAL_OR_KEYWORD, has_default = False\<rparr>,
                \<lparr>pname = ''x'', pkind = POSITIONAL_OR_KEYWORD, has_default = False\<rparr>,
                \<lparr>pname = ''kwargs'', pkind = VAR_KEYWORD, has_default = False\<rparr>])]) \<and>
   SignatureValidator_new ''SubTask''
     [PyClass ''AddTask'' []
       [(''run'', [\<lparr>pname = ''self'', pkind = POSITIONAL_OR_KEYWORD, has_default = False\<rparr>,
                  \<lparr>pname = ''x'', pkind = POSITIONAL_OR_KEYWORD, has_default = False\<rparr>,
                  \<lparr>pname = ''kwargs'', pkind = VAR_KEYWORD, has_default = False\<rparr>])]]
     [(''run'', [\<lparr>pname = ''self'', pkind = POSITIONAL_OR_KEYWORD, has_default = False\<rparr>,
                \<lparr>pname = ''args'', pkind = VAR_POSITIONAL, has_default = False\<rparr>])]
   = Inl (ValueError varargs_message)"
proof -
  let ?good = "[(''run'', [\<lparr>pname = ''self'', pkind = POSITIONAL_OR_KEYWORD, has_default = False\<rparr>,
                \<lparr>pname = ''x'', pkind = POSITIONAL_OR_KEYWORD, has_default = False\<rparr>,
                \<lparr>pname = ''kwargs'', pkind = VAR_KEYWORD, has_default = False\<rparr>])]"
  let ?bad = "[(''run'', [\<lparr>pname = ''self'', pkind = POSITIONAL_OR_KEYWORD, has_default = False\<rparr>,
                \<lparr>pname = ''args'', pkind = VAR_POSITIONAL, has_default = False\<rparr>])]"
  have g: "SignatureValidator_new ''AddTask'' [] ?good = Inr (PyClass ''AddTask'' [] ?good)"
    using SignatureValidator_new_varargs [of ?good "snd (hd ?good)" "''AddTask''" "[]"]
    by simp
  have b: "SignatureValidator_new ''SubTask'' [PyClass ''AddTask'' [] ?good] ?bad
           = Inl (ValueError varargs_message)"
    using SignatureValidator_new_varargs [of ?bad "snd (hd ?bad)" "''SubTask''" "[]"] g
    by simp
  show ?thesis using g b by simp
qed

section \<open>Properties of binding and of calling a task\<close>

text \<open>
  The keys of \<^verbatim>\<open>callargs\<close> are strings, so the lookup with the parameter object, or with
  \<^verbatim>\<open>None\<close>, finds nothing and line 170 leaves the dictionary as binding produced it.
\<close>

lemma map_of_KStr_KParam: "map_of (map (\<lambda>(k, v). (KStr k, v)) xs) (KParam p) = None"
  by (induction xs) auto

lemma map_of_KStr_KNone: "map_of (map (\<lambda>(k, v). (KStr k, v)) xs) KNone = None"
  by (induction xs) auto

lemma Task_call_callargs_bind:
  "Task_call_callargs signature args kwargs =
     (case Signature_bind signature args kwargs of
        Inl e \<Rightarrow> Inl e
      | Inr arguments \<Rightarrow> Inr (map (\<lambda>(k, v). (KStr k, v)) arguments))"
  by (simp add: Task_call_callargs_def dict_pop_def dict_update_def Let_def
      map_of_KStr_KParam map_of_KStr_KNone split: sum.splits option.splits)

text \<open>Every failure of binding is a \<^verbatim>\<open>TypeError\<close>.\<close>

lemma bind_positional_TypeError:
  "bind_positional ps args kw acc = Inl e \<Longrightarrow> \<exists>m. e = TypeError m"
  by (induction ps args kw acc rule: bind_positional.induct) (auto split: if_splits)

lemma bind_keywords_TypeError:
  "bind_keywords ps kw acc kp = Inl e \<Longrightarrow> \<exists>m. e = TypeError m"
  by (induction ps kw acc kp rule: bind_keywords.induct) (auto split: if_splits option.splits)

lemma Signature_bind_TypeError:
  "Signature_bind signature args kwargs = Inl e \<Longrightarrow> \<exists>m. e = TypeError m"
  by (auto simp add: Signature_bind_def split: sum.splits prod.splits if_splits option.splits
      dest: bind_positional_TypeError bind_keywords_TypeError)











text \<open>
  C1: for a task whose \<^verbatim>\<open>run\<close> declares a variable-keyword parameter, the entries that
  parameter captures are to be flattened into the keyword tasks handed to
  \<^verbatim>\<open>set_dependencies\<close>. For \<^verbatim>\<open>run(self, x, **kwargs)\<close> called as \<^verbatim>\<open>t(1, y=t2)\<close> the
  dictionary handed on still holds the captured dictionary under the key \<^verbatim>\<open>kwargs\<close>, and
  no key \<^verbatim>\<open>y\<close>.
\<close>

theorem Task_call_callargs_nested:
  "Task_call_callargs
     [\<lparr>pname = ''x'', pkind = POSITIONAL_OR_KEYWORD, has_default = False\<rparr>,
      \<lparr>pname = ''kwargs'', pkind = VAR_KEYWORD, has_default = False\<rparr>]
     [PInt 1] [(''y'', PTask 2)]
   = Inr [(KStr ''x'', PInt 1), (KStr ''kwargs'', PDict [(''y'', PTask 2)])]"
  by (simp add: Task_call_callargs_def Signature_bind_def dict_pop_def dict_update_def)

text \<open>
  C2, as stated: every call made while no flow is set in the context raises the
  \<^verbatim>\<open>ValueError\<close> "Could not infer an active Flow context.". Binding comes first in
  \<^verbatim>\<open>Task.__call__\<close>: a call without the required argument \<^verbatim>\<open>x\<close> raises the
  \<^verbatim>\<open>TypeError\<close> of binding instead.
\<close>

theorem Task_call_no_flow_counterexample:
  "c_flow \<lparr>c_flow = None, c_group = None, c_tags = None, c_parameters = None\<rparr> = None \<and>
   fst (Task_call (\<lambda>f t ups downs kw validate. (None, f))
          [\<lparr>pname = ''x'', pkind = POSITIONAL_OR_KEYWORD, has_default = False\<rparr>]
          \<lparr>c_flow = None, c_group = None, c_tags = None, c_parameters = None\<rparr>
          1 [] None [])
   \<noteq> Inl (ValueError ''Could not infer an active Flow context.'')"
  by (simp add: Task_call_def Task_call_callargs_def Signature_bind_def)

text \<open>
  C2, amended: a call made while no flow is set in the context never changes the
  context, whatever \<^verbatim>\<open>Flow.set_dependencies\<close> does; it raises the \<^verbatim>\<open>ValueError\<close>
  "Could not infer an active Flow context." when the arguments bind to the signature of
  \<^verbatim>\<open>run\<close>, and the \<^verbatim>\<open>TypeError\<close> of binding otherwise.
\<close>

theorem Task_call_no_flow:
  assumes "c_flow ctx = None"
  shows "(\<forall>arguments. Signature_bind signature args kwargs = Inr arguments \<longrightarrow>
            Task_call fsd signature ctx self args upstream_tasks kwargs =
              (Inl (ValueError ''Could not infer an active Flow context.''), ctx)) \<and>
         (\<forall>e. Signature_bind signature args kwargs = Inl e \<longrightarrow>
            (\<exists>m. e = TypeError m) \<and>
            Task_call fsd signature ctx self args upstream_tasks kwargs = (Inl e, ctx))"
  using assms Signature_bind_TypeError [of signature args kwargs]
  by (simp add: Task_call_def Task_call_callargs_bind)

theorem Task_call_no_flow_witness:
  "Task_call (\<lambda>f t ups downs kw validate. (None, f))
     [\<lparr>pname = ''x'', pkind = POSITIONAL_OR_KEYWORD, has_default = False\<rparr>]
     \<lparr>c_flow = None, c_group = None, c_tags = None, c_parameters = None\<rparr>
     1 [PTask 2] None []
   = (Inl (ValueError ''Could not infer an active Flow context.''),
      \<lparr>c_flow = None, c_group = None, c_tags = None, c_parameters = None\<rparr>)"
proof -
  have b: "Signature_bind
     [\<lparr>pname = ''x'', pkind = POSITIONAL_OR_KEYWORD, has_default = False\<rparr>] [PTask 2] []
     = Inr [(''x'', PTask 2)]"
    by (simp add: Signature_bind_def)
  show ?thesis
    using Task_call_no_flow [of "\<lparr>c_flow = None, c_group = None, c_tags = None, c_parameters = None\<rparr>"
        "[\<lparr>pname = ''x'', pkind = POSITIONAL_OR_KEYWORD, has_default = False\<rparr>]" "[PTask 2]" "[]"
        "\<lambda>f t ups downs kw validate. (None, f)" 1 None] b
    by simp
qed




end
